theory Spec2Isabelle
  imports Main
begin

section \<open>The OCI image destination (package oci)\<close>

text \<open>
  Go's \<open>[]byte\<close> and \<open>string\<close> are both byte sequences; paths, digests, tags and media
  types are strings.
\<close>

type_synonym bytes = "char list"
type_synonym path = string

text \<open>
  The error values the destination returns. A \<open>fmt.Errorf\<close> of the source is one
  constructor each (the message is in the comment); \<open>CalleeError\<close> is an error value
  handed back by a callee (\<open>os\<close>, \<open>io\<close>, \<open>ioutil\<close>, \<open>json\<close>, \<open>manifest\<close>, the
  reference's path methods) and returned unchanged.
\<close>

datatype go_error =
    SizeMismatch string int int
      \<comment> \<open>"Size mismatch when copying %s, expected %d, got %d"\<close>
  | FromSchema1
      \<comment> \<open>"can't create OCI manifest from Docker V2 schema 1 manifest"\<close>
  | FromSchema2List
      \<comment> \<open>"can't create OCI manifest from Docker V2 schema 2 manifest list"\<close>
  | FromOCIList
      \<comment> \<open>"can't create OCI manifest from OCI manifest list"\<close>
  | UnrecognizedMediaType
      \<comment> \<open>"Unrecognized manifest media type"\<close>
  | SignaturesNotSupported
      \<comment> \<open>"Pushing signatures for OCI images is not supported"\<close>
  | ErrExist
      \<comment> \<open>\<open>os.ErrExist\<close>, from \<open>ioutil.TempFile\<close>\<close>
  | CalleeError string

record descriptor =
  Digest :: string
  MediaType :: string
  Size :: int

record ociManifest =
  SchemaVersion :: int
  MediaType :: string
  Config :: descriptor
  Layers :: "descriptor list"
  Annotations :: "string \<rightharpoonup> string"

record ociReference =
  dir :: string
  tag :: string

record ociImageDestination =
  ref :: ociReference

text \<open>
  What the destination imports and this file does not hold: package \<open>manifest\<close> (its
  MIME type constants, \<open>GuessMIMEType\<close>, \<open>Digest\<close>), \<open>encoding/json\<close> at the two
  struct types, \<open>path/filepath\<close>, and the path methods of \<open>ociReference\<close>. They are
  parameters of the model.
\<close>

record oci_deps =
  DockerV2Schema1MIMEType :: string
  DockerV2Schema2MIMEType :: string
  DockerV2ListMIMEType :: string
  OCIV1ImageManifestMIMEType :: string
  OCIV1ImageManifestListMIMEType :: string
  OCIV1ImageSerializationMIMEType :: string
  OCIV1ImageSerializationConfigMIMEType :: string
  GuessMIMEType :: "bytes \<Rightarrow> string"
  manifest_Digest :: "bytes \<Rightarrow> go_error + string"
  json_Unmarshal :: "bytes \<Rightarrow> ociManifest \<Rightarrow> go_error + ociManifest"
  json_Marshal_ociManifest :: "ociManifest \<Rightarrow> go_error + bytes"
  json_Marshal_descriptor :: "descriptor \<Rightarrow> go_error + bytes"
  filepath_Dir :: "path \<Rightarrow> path"
  filepath_Base :: "path \<Rightarrow> string"
  filepath_Join :: "string list \<Rightarrow> path"
  blobPath :: "ociReference \<Rightarrow> string \<Rightarrow> go_error + path"
  ociLayoutPath :: "ociReference \<Rightarrow> path"
  descriptorPath :: "ociReference \<Rightarrow> string \<Rightarrow> path"

text \<open>
  The file system the destination writes to: the regular files with their contents, and
  the directories.
\<close>

record filesystem =
  files :: "path \<rightharpoonup> bytes"
  dirs :: "path set"

text \<open>
  What the operating system answers to the calls whose error the source checks.
  \<open>tempfile_res\<close> is the name \<open>ioutil.TempFile\<close> picks in the given directory for the
  given prefix, or its error.
\<close>

record os_outcomes =
  mkdirall_err :: "go_error option"
  tempfile_res :: "path \<Rightarrow> string \<Rightarrow> go_error + path"
  sync_err :: "go_error option"
  chmod_err :: "go_error option"
  rename_err :: "go_error option"
  remove_err :: "go_error option"
  writefile_err :: "path \<Rightarrow> go_error option"

text \<open>
  An \<open>io.Reader\<close>: the bytes it delivers, and the error it ends with in place of
  \<open>io.EOF\<close>, if any.
\<close>

record stream =
  stream_data :: bytes
  stream_err :: "go_error option"

subsection \<open>The calls into \<open>os\<close>, \<open>io\<close> and \<open>ioutil\<close>\<close>

text \<open>
  \<open>os.MkdirAll\<close> after a failed \<open>os.Stat\<close>, as \<open>ensureParentDirectoryExists\<close> uses
  them: \<open>os.Stat\<close> answers \<open>IsNotExist\<close> iff the parent is not a directory of the file
  system. On any other answer of \<open>os.Stat\<close> the source returns \<open>nil\<close> and changes
  nothing, as it does for a parent that exists.
\<close>

definition ensureParentDirectoryExists ::
  "oci_deps \<Rightarrow> os_outcomes \<Rightarrow> path \<Rightarrow> filesystem \<Rightarrow> go_error option \<times> filesystem" where
  "ensureParentDirectoryExists D E p fs =
     (let parent = filepath_Dir D p in
      if parent \<notin> dirs fs then
        (case mkdirall_err E of
           Some err \<Rightarrow> (Some err, fs)
         | None \<Rightarrow> (None, fs\<lparr>dirs := insert parent (dirs fs)\<rparr>))
      else (None, fs))"

text \<open>
  \<open>ioutil.TempFile\<close> opens its file with \<open>O_CREATE|O_EXCL\<close>: it creates an empty file
  under a name that no file has, and never hands back an existing one. The name is the
  operating system's; where a file of that name exists the call fails.
\<close>

definition ioutil_TempFile ::
  "os_outcomes \<Rightarrow> path \<Rightarrow> string \<Rightarrow> filesystem \<Rightarrow> go_error + (path \<times> filesystem)" where
  "ioutil_TempFile E dir' prefix fs =
     (case tempfile_res E dir' prefix of
        Inl err \<Rightarrow> Inl err
      | Inr name \<Rightarrow>
          if files fs name \<noteq> None then Inl ErrExist
          else Inr (name, fs\<lparr>files := (files fs)(name \<mapsto> [])\<rparr>))"

text \<open>
  \<open>io.Copy(blobFile, stream)\<close>: the bytes of the stream go to the file; the result is
  their count and the stream's error. The counts and sizes are \<open>int64\<close> in the source;
  no stream has \<open>2^63\<close> bytes, so they are integers here.
\<close>

definition io_Copy ::
  "path \<Rightarrow> stream \<Rightarrow> filesystem \<Rightarrow> int \<times> go_error option \<times> filesystem" where
  "io_Copy blobFile s fs =
     (int (length (stream_data s)), stream_err s,
      fs\<lparr>files := (files fs)(blobFile \<mapsto> stream_data s)\<rparr>)"

definition os_Rename ::
  "os_outcomes \<Rightarrow> path \<Rightarrow> path \<Rightarrow> filesystem \<Rightarrow> go_error option \<times> filesystem" where
  "os_Rename E oldpath newpath fs =
     (case rename_err E of
        Some err \<Rightarrow> (Some err, fs)
      | None \<Rightarrow>
          (None, fs\<lparr>files := ((files fs)(oldpath := None))(newpath := files fs oldpath)\<rparr>))"

text \<open>
  \<open>os.Remove\<close> can fail as the other calls can, and then the file stays. The source
  drops its result, so the model gives the file system only.
\<close>

definition os_Remove :: "os_outcomes \<Rightarrow> path \<Rightarrow> filesystem \<Rightarrow> filesystem" where
  "os_Remove E name fs =
     (case remove_err E of
        Some err \<Rightarrow> fs
      | None \<Rightarrow> fs\<lparr>files := (files fs)(name := None)\<rparr>)"

definition ioutil_WriteFile ::
  "os_outcomes \<Rightarrow> path \<Rightarrow> bytes \<Rightarrow> filesystem \<Rightarrow> go_error option \<times> filesystem" where
  "ioutil_WriteFile E filename data fs =
     (case writefile_err E filename of
        Some err \<Rightarrow> (Some err, fs)
      | None \<Rightarrow> (None, fs\<lparr>files := (files fs)(filename \<mapsto> data)\<rparr>))"

subsection \<open>PutBlob\<close>

text \<open>
  The body of \<open>PutBlob\<close> from \<open>io.Copy\<close> on, with the staging file \<open>blobFile\<close> open. It
  gives the returned error, the value of \<open>succeeded\<close> at the return, and the file
  system. The last \<open>case\<close> is the source's
  \<^verbatim>\<open>if err := os.Rename(blobFile.Name(), blobPath); err != nil { return nil }\<close>.
\<close>

definition PutBlob_copy ::
  "os_outcomes \<Rightarrow> path \<Rightarrow> path \<Rightarrow> string \<Rightarrow> int \<Rightarrow> stream \<Rightarrow> filesystem
     \<Rightarrow> go_error option \<times> bool \<times> filesystem" where
  "PutBlob_copy E blobFile blobPath' digest expectedSize s fs =
     (case io_Copy blobFile s fs of
        (size', Some err, fs1) \<Rightarrow> (Some err, False, fs1)
      | (size', None, fs1) \<Rightarrow>
          if expectedSize \<noteq> - 1 \<and> size' \<noteq> expectedSize
          then (Some (SizeMismatch digest expectedSize size'), False, fs1)
          else
            (case sync_err E of
               Some err \<Rightarrow> (Some err, False, fs1)
             | None \<Rightarrow>
                 (case chmod_err E of
                    Some err \<Rightarrow> (Some err, False, fs1)
                  | None \<Rightarrow>
                      (case os_Rename E blobFile blobPath' fs1 of
                         (Some err, fs2) \<Rightarrow> (None, False, fs2)
                       | (None, fs2) \<Rightarrow> (None, True, fs2)))))"

text \<open>
  \<open>PutBlob\<close> with its deferred function: close the staging file and, unless
  \<open>succeeded\<close>, call \<open>os.Remove\<close> on it.
\<close>

definition PutBlob ::
  "oci_deps \<Rightarrow> os_outcomes \<Rightarrow> ociImageDestination \<Rightarrow> filesystem \<Rightarrow> string \<Rightarrow> int \<Rightarrow> stream
     \<Rightarrow> go_error option \<times> filesystem" where
  "PutBlob D E d fs digest expectedSize s =
     (case blobPath D (ref d) digest of
        Inl err \<Rightarrow> (Some err, fs)
      | Inr bp \<Rightarrow>
          (case ensureParentDirectoryExists D E bp fs of
             (Some err, fs1) \<Rightarrow> (Some err, fs1)
           | (None, fs1) \<Rightarrow>
               (case ioutil_TempFile E (filepath_Dir D bp) (filepath_Base D bp) fs1 of
                  Inl err \<Rightarrow> (Some err, fs1)
                | Inr (blobFile, fs2) \<Rightarrow>
                    (case PutBlob_copy E blobFile bp digest expectedSize s fs2 of
                       (r, succeeded, fs3) \<Rightarrow>
                         (r, if \<not> succeeded then os_Remove E blobFile fs3 else fs3)))))"

subsection \<open>createManifest and PutManifest\<close>

definition ociManifest_zero :: ociManifest where
  "ociManifest_zero =
     \<lparr>SchemaVersion = 0, MediaType = [],
      Config = \<lparr>Digest = [], MediaType = [], Size = 0\<rparr>,
      Layers = [], Annotations = Map.empty\<rparr>"

definition createManifest :: "oci_deps \<Rightarrow> bytes \<Rightarrow> go_error + (bytes \<times> string)" where
  "createManifest D m =
     (let om = ociManifest_zero;
          mt = GuessMIMEType D m
      in
        if mt = DockerV2Schema1MIMEType D then Inl FromSchema1
        else if mt = DockerV2Schema2MIMEType D then
          (case json_Unmarshal D m om of
             Inl err \<Rightarrow> Inl err
           | Inr om1 \<Rightarrow>
               (let om2 = om1\<lparr>ociManifest.MediaType := OCIV1ImageManifestMIMEType D\<rparr>;
                    om3 = om2\<lparr>Layers :=
                            map (\<lambda>l. l\<lparr>descriptor.MediaType := OCIV1ImageSerializationMIMEType D\<rparr>)
                              (Layers om2)\<rparr>;
                    om4 = om3\<lparr>Config :=
                            (Config om3)\<lparr>descriptor.MediaType :=
                               OCIV1ImageSerializationConfigMIMEType D\<rparr>\<rparr>
                in
                  (case json_Marshal_ociManifest D om4 of
                     Inl err \<Rightarrow> Inl err
                   | Inr b \<Rightarrow> Inr (b, ociManifest.MediaType om4))))
        else if mt = DockerV2ListMIMEType D then Inl FromSchema2List
        else if mt = OCIV1ImageManifestListMIMEType D then Inl FromOCIList
        else if mt = OCIV1ImageManifestMIMEType D then Inr (m, ociManifest.MediaType om)
        else Inl UnrecognizedMediaType)"

text \<open>The contents of the layout marker file: \<^verbatim>\<open>{"imageLayoutVersion": "1.0.0"}\<close>.\<close>

definition ociLayoutContents :: bytes where
  "ociLayoutContents =
     ''{'' @ [CHR 0x22] @ ''imageLayoutVersion'' @ [CHR 0x22] @ '': ''
       @ [CHR 0x22] @ ''1.0.0'' @ [CHR 0x22] @ ''}''"

definition PutManifest ::
  "oci_deps \<Rightarrow> os_outcomes \<Rightarrow> ociImageDestination \<Rightarrow> filesystem \<Rightarrow> bytes
     \<Rightarrow> go_error option \<times> filesystem" where
  "PutManifest D E d fs m =
     (case createManifest D m of
        Inl err \<Rightarrow> (Some err, fs)
      | Inr (ociMan, mt) \<Rightarrow>
          (case manifest_Digest D ociMan of
             Inl err \<Rightarrow> (Some err, fs)
           | Inr digest \<Rightarrow>
               (let desc = \<lparr>Digest = digest, MediaType = mt, Size = int (length ociMan)\<rparr> in
                case json_Marshal_descriptor D desc of
                  Inl err \<Rightarrow> (Some err, fs)
                | Inr data \<Rightarrow>
                    (case blobPath D (ref d) digest of
                       Inl err \<Rightarrow> (Some err, fs)
                     | Inr bp \<Rightarrow>
                         (case ioutil_WriteFile E bp ociMan fs of
                            (Some err, fs1) \<Rightarrow> (Some err, fs1)
                          | (None, fs1) \<Rightarrow>
                              (case ioutil_WriteFile E (ociLayoutPath D (ref d))
                                      ociLayoutContents fs1 of
                                 (Some err, fs2) \<Rightarrow> (Some err, fs2)
                               | (None, fs2) \<Rightarrow>
                                   (let dp = descriptorPath D (ref d) (tag (ref d)) in
                                    case ensureParentDirectoryExists D E dp fs2 of
                                      (Some err, fs3) \<Rightarrow> (Some err, fs3)
                                    | (None, fs3) \<Rightarrow>
                                        ioutil_WriteFile E dp data fs3)))))))"

subsection \<open>PutSignatures\<close>

definition PutSignatures ::
  "ociImageDestination \<Rightarrow> filesystem \<Rightarrow> bytes list \<Rightarrow> go_error option \<times> filesystem" where
  "PutSignatures d fs signatures =
     (if length signatures \<noteq> 0 then (Some SignaturesNotSupported, fs) else (None, fs))"

subsection \<open>The earlier revision of the destination (src/oci/oci_dest.go)\<close>

text \<open>
  In this revision the paths are functions of the directory, and
  \<open>ensureParentDirectoryExists\<close> is a method taking the name of the subdirectory.
  \<open>createManifest\<close> and \<open>PutSignatures\<close> read the same in both revisions.
  \<open>strings.Replace(digest, ":", "-", -1)\<close> replaces every colon.
\<close>

definition ociLayoutPath_oci_dest :: "oci_deps \<Rightarrow> string \<Rightarrow> path" where
  "ociLayoutPath_oci_dest D dir' = filepath_Join D [dir', ''oci-layout'']"

definition blobPath_oci_dest :: "oci_deps \<Rightarrow> string \<Rightarrow> string \<Rightarrow> path" where
  "blobPath_oci_dest D dir' digest =
     filepath_Join D
       [dir', ''blobs'', map (\<lambda>c. if c = CHR '':'' then CHR ''-'' else c) digest]"

definition descriptorPath_oci_dest :: "oci_deps \<Rightarrow> string \<Rightarrow> string \<Rightarrow> path" where
  "descriptorPath_oci_dest D dir' digest = filepath_Join D [dir', ''refs'', digest]"

definition ensureParentDirectoryExists_oci_dest ::
  "oci_deps \<Rightarrow> os_outcomes \<Rightarrow> ociImageDestination \<Rightarrow> string \<Rightarrow> filesystem
     \<Rightarrow> go_error option \<times> filesystem" where
  "ensureParentDirectoryExists_oci_dest D E d parent fs =
     (let p = filepath_Join D [dir (ref d), parent] in
      if p \<notin> dirs fs then
        (case mkdirall_err E of
           Some err \<Rightarrow> (Some err, fs)
         | None \<Rightarrow> (None, fs\<lparr>dirs := insert p (dirs fs)\<rparr>))
      else (None, fs))"

definition PutManifest_oci_dest ::
  "oci_deps \<Rightarrow> os_outcomes \<Rightarrow> ociImageDestination \<Rightarrow> filesystem \<Rightarrow> bytes
     \<Rightarrow> go_error option \<times> filesystem" where
  "PutManifest_oci_dest D E d fs m =
     (case ensureParentDirectoryExists_oci_dest D E d ''refs'' fs of
        (Some err, fs0) \<Rightarrow> (Some err, fs0)
      | (None, fs0) \<Rightarrow>
          (case createManifest D m of
             Inl err \<Rightarrow> (Some err, fs0)
           | Inr (ociMan, mt) \<Rightarrow>
               (case manifest_Digest D ociMan of
                  Inl err \<Rightarrow> (Some err, fs0)
                | Inr digest \<Rightarrow>
                    (let desc = \<lparr>Digest = digest, MediaType = mt,
                                 Size = int (length ociMan)\<rparr> in
                     case json_Marshal_descriptor D desc of
                       Inl err \<Rightarrow> (Some err, fs0)
                     | Inr data \<Rightarrow>
                         (case ioutil_WriteFile E (blobPath_oci_dest D (dir (ref d)) digest)
                                 ociMan fs0 of
                            (Some err, fs1) \<Rightarrow> (Some err, fs1)
                          | (None, fs1) \<Rightarrow>
                              (case ioutil_WriteFile E (ociLayoutPath_oci_dest D (dir (ref d)))
                                      ociLayoutContents fs1 of
                                 (Some err, fs2) \<Rightarrow> (Some err, fs2)
                               | (None, fs2) \<Rightarrow>
                                   ioutil_WriteFile E
                                     (descriptorPath_oci_dest D (dir (ref d)) (tag (ref d)))
                                     data fs2))))))"

subsection \<open>A concrete instance\<close>

text \<open>
  An instance of the parameters on which the model can be evaluated: the MIME types of
  package \<open>manifest\<close>, stand-ins for the digest and the JSON encoders that keep their
  arguments readable, and the directory layout \<open>blobs/\<close>, \<open>refs/\<close>, \<open>oci-layout\<close>.
\<close>

definition example_deps :: oci_deps where
  "example_deps =
     \<lparr>DockerV2Schema1MIMEType = ''application/vnd.docker.distribution.manifest.v1+json'',
      DockerV2Schema2MIMEType = ''application/vnd.docker.distribution.manifest.v2+json'',
      DockerV2ListMIMEType = ''application/vnd.docker.distribution.manifest.list.v2+json'',
      OCIV1ImageManifestMIMEType = ''application/vnd.oci.image.manifest.v1+json'',
      OCIV1ImageManifestListMIMEType = ''application/vnd.oci.image.manifest.list.v1+json'',
      OCIV1ImageSerializationMIMEType =
        ''application/vnd.oci.image.serialization.rootfs.tar.gzip'',
      OCIV1ImageSerializationConfigMIMEType =
        ''application/vnd.oci.image.serialization.config.v1+json'',
      GuessMIMEType = (\<lambda>m.
        if take 2 m = ''s2'' then ''application/vnd.docker.distribution.manifest.v2+json''
        else if take 3 m = ''oci'' then ''application/vnd.oci.image.manifest.v1+json''
        else []),
      manifest_Digest = (\<lambda>b. Inr (''sha256:'' @ b)),
      json_Unmarshal = (\<lambda>m om. Inr (om\<lparr>SchemaVersion := 2\<rparr>)),
      json_Marshal_ociManifest = (\<lambda>om. Inr (''{oci}'')),
      json_Marshal_descriptor = (\<lambda>desc.
        Inr (Digest desc @ '','' @ descriptor.MediaType desc @ '',''
               @ replicate (nat (Size desc)) (CHR ''#''))),
      filepath_Dir = (\<lambda>p. rev (drop 1 (dropWhile (\<lambda>c. c \<noteq> CHR ''/'') (rev p)))),
      filepath_Base = (\<lambda>p. rev (takeWhile (\<lambda>c. c \<noteq> CHR ''/'') (rev p))),
      filepath_Join = (\<lambda>elems. concat (map (\<lambda>e. e @ ''/'') (butlast elems)) @ last elems),
      blobPath = (\<lambda>r digest.
        Inr (dir r @ ''/blobs/'' @ map (\<lambda>c. if c = CHR '':'' then CHR ''-'' else c) digest)),
      ociLayoutPath = (\<lambda>r. dir r @ ''/oci-layout''),
      descriptorPath = (\<lambda>r t. dir r @ ''/refs/'' @ t)\<rparr>"

text \<open>
  The operating system lets every call succeed, \<open>os.Remove\<close> too, but for
  \<open>os.Rename\<close>, which answers \<open>rn\<close>.
\<close>

definition example_outcomes :: "go_error option \<Rightarrow> os_outcomes" where
  "example_outcomes rn =
     \<lparr>mkdirall_err = None,
      tempfile_res = (\<lambda>dir' prefix. Inr (dir' @ ''/'' @ prefix @ ''081337'')),
      sync_err = None, chmod_err = None, rename_err = rn, remove_err = None,
      writefile_err = (\<lambda>p. None)\<rparr>"


definition example_dest :: ociImageDestination where
  "example_dest = \<lparr>ref = \<lparr>dir = ''/img'', tag = ''latest''\<rparr>\<rparr>"

definition example_fs :: filesystem where
  "example_fs = \<lparr>files = Map.empty, dirs = {''/img''}\<rparr>"

section \<open>Storage references (package storage)\<close>

text \<open>
  The errors \<open>resolveImage\<close> returns: \<open>ErrNoSuchImage\<close>, an error of the store, and
  \<open>errors.Wrapf\<close> of either. The string of \<open>Wrapf\<close> is the argument of its format:
  the reference's \<open>StringWithinTransport()\<close> in "reference %q does not resolve to an
  image ID", the id in "error reading image %q".
\<close>

datatype storage_error =
    ErrNoSuchImage
  | StoreError string
  | Wrapf storage_error string

text \<open>
  A \<open>reference.Named\<close>: \<open>Name()\<close> is the repository; it is \<open>Tagged\<close> when it has a
  tag and \<open>Digested\<close> when it has a digest.
\<close>

record named =
  Name :: string
  Tag :: "string option"
  Digest' :: "string option"

text \<open>The fields of \<open>storage.Image\<close> that the reference reads.\<close>

record image =
  ID :: string
  Names :: "string list"

text \<open>
  The \<open>storage.Store\<close> of the transport, by the methods the reference calls. A lookup
  answers with an image (a list of images) or with an error.
\<close>

record store =
  Image :: "string \<Rightarrow> storage_error + image"
  ImagesByDigest :: "string \<Rightarrow> storage_error + image list"
  GraphDriverName :: string
  GraphRoot :: string
  RunRoot :: string
  GraphOptions :: "string list"

record storageTransport =
  store :: store

record storageReference =
  transport :: storageTransport
  completeReference :: "named option"
  reference :: string
  id' :: string
  name :: "named option"
  breakDockerReference :: bool

text \<open>\<open>reference.ParseNormalizedNamed\<close>, of package \<open>docker/reference\<close>, is a parameter.\<close>

type_synonym parser = "string \<Rightarrow> storage_error + named"

subsection \<open>\<open>strings.Join\<close> and \<open>strings.Split\<close>\<close>

fun Join :: "string list \<Rightarrow> string \<Rightarrow> string" where
  "Join [] sep = []"
| "Join [e] sep = e"
| "Join (e # e' # elems) sep = e @ sep @ Join (e' # elems) sep"

text \<open>
  \<open>strings.Split(s, sep)\<close> for a separator of one byte, as the source calls it
  (\<open>"/"\<close>): the pieces of \<open>s\<close> between the separators; one piece, \<open>s\<close> itself, where
  there is no separator.
\<close>

fun Split :: "string \<Rightarrow> char \<Rightarrow> string list" where
  "Split [] sep = [[]]"
| "Split (c # cs) sep =
     (if c = sep then [] # Split cs sep
      else (case Split cs sep of
              [] \<Rightarrow> [[c]]
            | piece # pieces \<Rightarrow> (c # piece) # pieces))"

subsection \<open>imageMatchesRepo and resolveImage\<close>

primrec imageMatchesRepo_range :: "parser \<Rightarrow> string \<Rightarrow> string list \<Rightarrow> bool" where
  "imageMatchesRepo_range P repo [] = False"
| "imageMatchesRepo_range P repo (name' # names) =
     (case P name' of
        Inr named' \<Rightarrow>
          if Name named' = repo then True else imageMatchesRepo_range P repo names
      | Inl err \<Rightarrow> imageMatchesRepo_range P repo names)"

definition imageMatchesRepo :: "parser \<Rightarrow> image \<Rightarrow> named \<Rightarrow> bool" where
  "imageMatchesRepo P image' ref' =
     (let repo = Name ref' in imageMatchesRepo_range P repo (Names image'))"

definition StringWithinTransport :: "storageReference \<Rightarrow> string" where
  "StringWithinTransport s =
     (let options = GraphOptions (store (transport s));
          optionsList = (if length options > 0 then '':'' @ Join options '','' else []);
          storeSpec = ''['' @ GraphDriverName (store (transport s)) @ ''@''
                        @ GraphRoot (store (transport s)) @ ''+''
                        @ RunRoot (store (transport s)) @ optionsList @ '']''
      in
        if reference s = [] then storeSpec @ ''@'' @ id' s
        else if id' s = [] then storeSpec @ reference s
        else storeSpec @ reference s @ ''@'' @ id' s)"

text \<open>
  The loop of \<open>resolveImage\<close> over the images of a digest: the first image that
  matches the repository gives the id, and the loop ends.
\<close>

primrec resolveImage_range ::
  "parser \<Rightarrow> named \<Rightarrow> image list \<Rightarrow> storageReference \<Rightarrow> storageReference" where
  "resolveImage_range P cr [] s = s"
| "resolveImage_range P cr (image' # images) s =
     (if imageMatchesRepo P image' cr then s\<lparr>id' := ID image'\<rparr>
      else resolveImage_range P cr images s)"

text \<open>
  \<open>resolveImage\<close> has a pointer receiver and assigns \<open>s.id\<close>: the model returns the
  reference as the call leaves it, and the result.
\<close>

definition resolveImage ::
  "parser \<Rightarrow> storageReference \<Rightarrow> storageReference \<times> (storage_error + image)" where
  "resolveImage P s =
     (let s1 = (if id' s = [] then
                  (case Image (store (transport s)) (reference s) of
                     Inr image' \<Rightarrow> s\<lparr>id' := ID image'\<rparr>
                   | Inl err \<Rightarrow> s)
                else s);
          s2 = (if id' s1 = [] \<and> completeReference s1 \<noteq> None then
                  (case completeReference s1 of
                     None \<Rightarrow> s1
                   | Some cr \<Rightarrow>
                       (case Digest' cr of
                          None \<Rightarrow> s1
                        | Some digest \<Rightarrow>
                            (case ImagesByDigest (store (transport s1)) digest of
                               Inr images \<Rightarrow> resolveImage_range P cr images s1
                             | Inl err \<Rightarrow> s1)))
                else s1)
      in
        if id' s2 = [] then (s2, Inl (Wrapf ErrNoSuchImage (StringWithinTransport s2)))
        else
          (case Image (store (transport s2)) (id' s2) of
             Inl err \<Rightarrow> (s2, Inl (Wrapf err (id' s2)))
           | Inr img \<Rightarrow>
               (case completeReference s2 of
                  Some cr \<Rightarrow>
                    if \<not> imageMatchesRepo P img cr then (s2, Inl ErrNoSuchImage)
                    else (s2, Inr img)
                | None \<Rightarrow> (s2, Inr img))))"

text \<open>
  The resolution order in the words of the specification, to compare \<open>resolveImage\<close>
  with. \<open>Resolve_id_spec\<close> is the id that the steps find: (1) the id the reference
  carries; (2) else that of the image the store's name index has for the expanded
  reference name; (3) else, for a reference with a digest, that of the first image of
  the store's digest index whose names contain the reference's repository; (4) else
  none. \<open>Resolve_spec\<close> fails with NoSuchImage where there is no id, reads the image of
  the id, and for a reference with a name fails with NoSuchImage unless the image's names
  still contain the repository.
\<close>

definition Resolve_id_spec :: "parser \<Rightarrow> storageReference \<Rightarrow> string option" where
  "Resolve_id_spec P s =
     (if id' s \<noteq> [] then Some (id' s)
      else
        (case Image (store (transport s)) (reference s) of
           Inr img \<Rightarrow> Some (ID img)
         | Inl err \<Rightarrow>
             (case completeReference s of
                None \<Rightarrow> None
              | Some cr \<Rightarrow>
                  (case Digest' cr of
                     None \<Rightarrow> None
                   | Some digest \<Rightarrow>
                       (case ImagesByDigest (store (transport s)) digest of
                          Inl err \<Rightarrow> None
                        | Inr images \<Rightarrow>
                            map_option ID
                              (find (\<lambda>img. imageMatchesRepo P img cr) images))))))"

definition Resolve_spec :: "parser \<Rightarrow> storageReference \<Rightarrow> storage_error + image" where
  "Resolve_spec P s =
     (case Resolve_id_spec P s of
        None \<Rightarrow> Inl (Wrapf ErrNoSuchImage (StringWithinTransport s))
      | Some i \<Rightarrow>
          (case Image (store (transport s)) i of
             Inl err \<Rightarrow> Inl (Wrapf err i)
           | Inr img \<Rightarrow>
               (case completeReference s of
                  None \<Rightarrow> Inr img
                | Some cr \<Rightarrow>
                    if imageMatchesRepo P img cr then Inr img else Inl ErrNoSuchImage)))"

subsection \<open>The policy configuration strings\<close>

definition PolicyConfigurationIdentity :: "storageReference \<Rightarrow> string" where
  "PolicyConfigurationIdentity s =
     (let storeSpec = ''['' @ GraphDriverName (store (transport s)) @ ''@''
                        @ GraphRoot (store (transport s)) @ '']''
      in
        if completeReference s = None then storeSpec @ ''@'' @ id' s
        else if id' s = [] then storeSpec @ reference s
        else storeSpec @ reference s @ ''@'' @ id' s)"

text \<open>
  The loop of \<open>PolicyConfigurationNamespaces\<close>: while there are components, append
  the store spec with the components joined, and drop the last component.
\<close>

function PolicyConfigurationNamespaces_range ::
  "string \<Rightarrow> string list \<Rightarrow> string list \<Rightarrow> string list" where
  "PolicyConfigurationNamespaces_range storeSpec components namespaces =
     (if length components > 0 then
        PolicyConfigurationNamespaces_range storeSpec (butlast components)
          (namespaces @ [storeSpec @ Join components ''/''])
      else namespaces)"
  by pat_completeness auto
termination
  by (relation "measure (\<lambda>(storeSpec, components, namespaces). length components)") auto

definition PolicyConfigurationNamespaces :: "storageReference \<Rightarrow> string list" where
  "PolicyConfigurationNamespaces s =
     (let storeSpec = ''['' @ GraphDriverName (store (transport s)) @ ''@''
                        @ GraphRoot (store (transport s)) @ '']'';
          driverlessStoreSpec = ''['' @ GraphRoot (store (transport s)) @ '']'';
          namespaces0 = [];
          namespaces1 =
            (case completeReference s of
               Some cr \<Rightarrow>
                 (let namespaces' = (if id' s \<noteq> [] then namespaces0 @ [storeSpec @ reference s]
                                     else namespaces0);
                      components = Split (Name cr) (CHR ''/'')
                  in PolicyConfigurationNamespaces_range storeSpec components namespaces')
             | None \<Rightarrow> namespaces0);
          namespaces2 = namespaces1 @ [storeSpec]
      in namespaces2 @ [driverlessStoreSpec])"

subsection \<open>A concrete store\<close>

text \<open>
  A store with two images of the same digest under different repositories, and a
  parser that takes the repository of a name to be what stands before its tag or digest.
\<close>

definition example_parser :: parser where
  "example_parser n =
     (if n = [] then Inl (StoreError ''invalid reference format'')
      else Inr \<lparr>Name = takeWhile (\<lambda>c. c \<noteq> CHR '':'' \<and> c \<noteq> CHR ''@'') n,
                Tag = None, Digest' = None\<rparr>)"

definition example_image1 :: image where
  "example_image1 = \<lparr>ID = ''1111'', Names = [''x/y:latest'']\<rparr>"

definition example_image2 :: image where
  "example_image2 = \<lparr>ID = ''2222'', Names = [''a/b/c:v1'']\<rparr>"

definition example_store :: store where
  "example_store =
     \<lparr>Image = (\<lambda>k.
        if k = ''1111'' \<or> k = ''x/y:latest'' then Inr example_image1
        else if k = ''2222'' \<or> k = ''a/b/c:v1'' then Inr example_image2
        else Inl (StoreError ''image not known'')),
      ImagesByDigest = (\<lambda>digest.
        if digest = ''sha256:dd'' then Inr [example_image1, example_image2] else Inr []),
      GraphDriverName = ''overlay'',
      GraphRoot = ''/var/lib/containers/storage'',
      RunRoot = ''/run/containers/storage'',
      GraphOptions = []\<rparr>"

definition example_reference :: "string \<Rightarrow> string \<Rightarrow> string option \<Rightarrow> storageReference" where
  "example_reference r i dg =
     \<lparr>transport = \<lparr>store = example_store\<rparr>,
      completeReference = Some \<lparr>Name = ''a/b/c'', Tag = None, Digest' = dg\<rparr>,
      reference = r, id' = i,
      name = Some \<lparr>Name = ''a/b/c'', Tag = None, Digest' = None\<rparr>,
      breakDockerReference = False\<rparr>"

section \<open>Signing and verifying a manifest (package signature)\<close>

text \<open>
  Modelled from the spec: the error kinds of signing and verification (section 7 of the
  specification); package \<open>signature\<close> is not among the sources, only its tests are.
\<close>

datatype signature_error =
    ManifestDigestError
  | InvalidReference
  | SigningError
  | SignatureInvalid
  | KeyMismatch
  | ReferenceMismatch
  | DigestMismatch

text \<open>
  Modelled from the spec: the signed envelope \<open>{dockerReference, dockerManifestDigest}\<close>
  and the verified signature \<open>{reference, digest}\<close> that a verification returns.
\<close>

record SignedEnvelope =
  dockerReference :: string
  dockerManifestDigest :: string

record VerifiedSignature =
  DockerReference :: string
  DockerManifestDigest :: string

text \<open>
  Modelled from the spec: the signing mechanism, a collaborator with
  \<open>Sign(payload, keyIdentity) \<rightarrow> detachedSignature\<close> and
  \<open>Verify(detachedSignature) \<rightarrow> (authenticatedPayload, signerKeyIdentity) | error\<close>;
  \<open>None\<close> is its failure.
\<close>

record signing_mechanism =
  mech_Sign :: "bytes \<Rightarrow> string \<Rightarrow> bytes option"
  mech_Verify :: "bytes \<Rightarrow> (bytes \<times> string) option"

text \<open>
  Modelled from the spec: what signing and verification use and the specification
  leaves open: \<open>ComputeDigest\<close> (\<open>None\<close> where the manifest cannot be digested), the
  test that a reference string is fully qualified, and the serialization of the
  envelope with its parser.
\<close>

record signature_deps =
  ComputeDigest :: "bytes \<Rightarrow> string option"
  fullyQualified :: "string \<Rightarrow> bool"
  serialize :: "SignedEnvelope \<Rightarrow> bytes"
  parse :: "bytes \<Rightarrow> SignedEnvelope option"

text \<open>
  Modelled from the spec: \<open>Sign\<close> (\<open>SignDockerManifest\<close>, which the sources only call
  from \<open>TestSignDockerManifest\<close>), by its three steps: compute the digest or fail
  with \<open>ManifestDigestError\<close>; build the envelope, failing with \<open>InvalidReference\<close>
  for an empty or not fully qualified reference; serialize it and have the mechanism
  sign it under the key identity, failing with \<open>SigningError\<close>.
\<close>

definition SignDockerManifest ::
  "signature_deps \<Rightarrow> bytes \<Rightarrow> string \<Rightarrow> signing_mechanism \<Rightarrow> string
     \<Rightarrow> signature_error + bytes" where
  "SignDockerManifest S m dockerReference' mech keyIdentity =
     (case ComputeDigest S m of
        None \<Rightarrow> Inl ManifestDigestError
      | Some digest \<Rightarrow>
          if dockerReference' = [] \<or> \<not> fullyQualified S dockerReference'
          then Inl InvalidReference
          else
            (case mech_Sign mech
                    (serialize S \<lparr>dockerReference = dockerReference',
                                  dockerManifestDigest = digest\<rparr>) keyIdentity of
               None \<Rightarrow> Inl SigningError
             | Some signature \<Rightarrow> Inr signature))"

text \<open>
  Modelled from the spec: \<open>Verify\<close> (\<open>VerifyDockerManifestSignature\<close>, which the
  sources only call from the tests), by its seven steps, in their order. The result is
  the pair the Go function returns: the verified signature (\<open>None\<close> is \<open>nil\<close>) and the
  error (\<open>None\<close> is \<open>nil\<close>).
\<close>

definition VerifyDockerManifestSignature ::
  "signature_deps \<Rightarrow> bytes \<Rightarrow> bytes \<Rightarrow> string \<Rightarrow> signing_mechanism \<Rightarrow> string
     \<Rightarrow> VerifiedSignature option \<times> signature_error option" where
  "VerifyDockerManifestSignature S signature m expectedReference mech expectedKeyIdentity =
     (case ComputeDigest S m of
        None \<Rightarrow> (None, Some ManifestDigestError)
      | Some digest \<Rightarrow>
          (case mech_Verify mech signature of
             None \<Rightarrow> (None, Some SignatureInvalid)
           | Some (payload, signer) \<Rightarrow>
               (case parse S payload of
                  None \<Rightarrow> (None, Some SignatureInvalid)
                | Some envelope \<Rightarrow>
                    if signer \<noteq> expectedKeyIdentity then (None, Some KeyMismatch)
                    else if dockerReference envelope \<noteq> expectedReference
                    then (None, Some ReferenceMismatch)
                    else if dockerManifestDigest envelope \<noteq> digest
                    then (None, Some DigestMismatch)
                    else (Some \<lparr>DockerReference = dockerReference envelope,
                                 DockerManifestDigest = dockerManifestDigest envelope\<rparr>,
                          None))))"

text \<open>
  A concrete mechanism with the keys \<open>KEY1\<close> and \<open>KEY2\<close>, whose signature is the key
  identity before the payload, and a concrete digest and envelope encoding.
\<close>

definition example_signature_deps :: signature_deps where
  "example_signature_deps =
     \<lparr>ComputeDigest = (\<lambda>m. if m = [] then None else Some (''sha256:'' @ m)),
      fullyQualified = (\<lambda>r. CHR '':'' \<in> set r \<or> CHR ''@'' \<in> set r),
      serialize = (\<lambda>e. dockerReference e @ ''#'' @ dockerManifestDigest e),
      parse = (\<lambda>p.
        if CHR ''#'' \<in> set p
        then Some \<lparr>dockerReference = takeWhile (\<lambda>c. c \<noteq> CHR ''#'') p,
                   dockerManifestDigest = tl (dropWhile (\<lambda>c. c \<noteq> CHR ''#'') p)\<rparr>
        else None)\<rparr>"

definition example_mechanism :: signing_mechanism where
  "example_mechanism =
     \<lparr>mech_Sign = (\<lambda>payload key.
        if key = ''KEY1'' \<or> key = ''KEY2'' then Some (key @ ''|'' @ payload) else None),
      mech_Verify = (\<lambda>sig.
        if take 5 sig = ''KEY1|'' \<or> take 5 sig = ''KEY2|''
        then Some (drop 5 sig, take 4 sig) else None)\<rparr>"

section \<open>Properties of the OCI image destination\<close>

text \<open>
  C9: \<open>PutSignatures\<close> of the OCI image destination returns an error for every
  non-empty set of signatures, returns success exactly when the set is empty, and leaves
  the file system as it was in both cases.
\<close>

theorem PutSignatures_rejects_nonempty:
  "(fst (PutSignatures d fs signatures) = None \<longleftrightarrow> signatures = [])
   \<and> (signatures \<noteq> [] \<longrightarrow> fst (PutSignatures d fs signatures) = Some SignaturesNotSupported)
   \<and> snd (PutSignatures d fs signatures) = fs"
  by (simp add: PutSignatures_def)

theorem PutSignatures_rejects_nonempty_witness:
  "(fst (PutSignatures \<lparr>ref = \<lparr>dir = ''/img'', tag = ''latest''\<rparr>\<rparr>
           \<lparr>files = Map.empty, dirs = {}\<rparr> [''sig1'']) = None \<longleftrightarrow> [''sig1''] = ([] :: bytes list))
   \<and> [''sig1''] \<noteq> ([] :: bytes list)
   \<and> fst (PutSignatures \<lparr>ref = \<lparr>dir = ''/img'', tag = ''latest''\<rparr>\<rparr>
           \<lparr>files = Map.empty, dirs = {}\<rparr> [''sig1'']) = Some SignaturesNotSupported
   \<and> snd (PutSignatures \<lparr>ref = \<lparr>dir = ''/img'', tag = ''latest''\<rparr>\<rparr>
           \<lparr>files = Map.empty, dirs = {}\<rparr> [''sig1'']) = \<lparr>files = Map.empty, dirs = {}\<rparr>"
  using PutSignatures_rejects_nonempty
    [of "\<lparr>ref = \<lparr>dir = ''/img'', tag = ''latest''\<rparr>\<rparr>" "\<lparr>files = Map.empty, dirs = {}\<rparr>"
        "[''sig1'']"]
  by simp


lemma PutManifest_success:
  assumes "fst (PutManifest D E d fs m) = None"
  shows "\<exists>ociMan mt digest data bp.
           createManifest D m = Inr (ociMan, mt)
         \<and> manifest_Digest D ociMan = Inr digest
         \<and> json_Marshal_descriptor D
              \<lparr>Digest = digest, MediaType = mt, Size = int (length ociMan)\<rparr> = Inr data
         \<and> blobPath D (ref d) digest = Inr bp
         \<and> files (snd (PutManifest D E d fs m)) =
             (files fs)(bp \<mapsto> ociMan, ociLayoutPath D (ref d) \<mapsto> ociLayoutContents,
                        descriptorPath D (ref d) (tag (ref d)) \<mapsto> data)"
  using assms
  by (auto simp: PutManifest_def ioutil_WriteFile_def ensureParentDirectoryExists_def Let_def
           split: sum.splits option.splits prod.splits if_splits)

lemma PutManifest_oci_dest_success:
  assumes "fst (PutManifest_oci_dest D E d fs m) = None"
  shows "\<exists>ociMan mt digest data.
           createManifest D m = Inr (ociMan, mt)
         \<and> manifest_Digest D ociMan = Inr digest
         \<and> json_Marshal_descriptor D
              \<lparr>Digest = digest, MediaType = mt, Size = int (length ociMan)\<rparr> = Inr data
         \<and> files (snd (PutManifest_oci_dest D E d fs m)) =
             (files fs)(blobPath_oci_dest D (dir (ref d)) digest \<mapsto> ociMan,
                        ociLayoutPath_oci_dest D (dir (ref d)) \<mapsto> ociLayoutContents,
                        descriptorPath_oci_dest D (dir (ref d)) (tag (ref d)) \<mapsto> data)"
  using assms
  by (auto simp: PutManifest_oci_dest_def ioutil_WriteFile_def
                 ensureParentDirectoryExists_oci_dest_def Let_def
           split: sum.splits option.splits prod.splits if_splits)

text \<open>
  Where every call succeeds, the blob is at its final path and the staging file is gone.
\<close>

lemma PutBlob_success_example:
  "PutBlob example_deps (example_outcomes None) example_dest example_fs ''sha256:abc'' 3
     \<lparr>stream_data = ''xyz'', stream_err = None\<rparr>
   = (None, \<lparr>files = [''/img/blobs/sha256-abc'' \<mapsto> ''xyz''],
             dirs = {''/img/blobs'', ''/img''}\<rparr>)"
  by (simp add: PutBlob_def PutBlob_copy_def io_Copy_def os_Rename_def os_Remove_def
        ioutil_TempFile_def ensureParentDirectoryExists_def example_deps_def
        example_outcomes_def example_dest_def example_fs_def fun_eq_iff)

text \<open>
  C1: \<open>PutBlob\<close> is to return an error whenever the final rename of the staging file
  fails. The code does not: with a stream of three bytes, the expected size three, and
  every call succeeding but \<open>os.Rename\<close>, which answers an error, \<open>PutBlob\<close> returns
  \<open>nil\<close>; the deferred function has removed the staging file, and the final path holds
  no blob.
\<close>

theorem PutBlob_rename_failure_returns_nil:
  "fst (PutBlob example_deps
          (example_outcomes (Some (CalleeError ''rename: permission denied'')))
          example_dest example_fs ''sha256:abc'' 3
          \<lparr>stream_data = ''xyz'', stream_err = None\<rparr>) = None
   \<and> files (snd (PutBlob example_deps
                    (example_outcomes (Some (CalleeError ''rename: permission denied'')))
                    example_dest example_fs ''sha256:abc'' 3
                    \<lparr>stream_data = ''xyz'', stream_err = None\<rparr>))
        ''/img/blobs/sha256-abc'' = None"
  by (simp add: PutBlob_def PutBlob_copy_def io_Copy_def os_Rename_def os_Remove_def
        ioutil_TempFile_def ensureParentDirectoryExists_def example_deps_def
        example_outcomes_def example_dest_def example_fs_def)




text \<open>
  C8: when \<open>PutManifest\<close> succeeds, write \<open>ociMan\<close> for the bytes \<open>createManifest\<close>
  gives for the input (the stored bytes, translated or not) and \<open>digest\<close> for
  \<open>manifest.Digest\<close> of \<open>ociMan\<close>, not of the input. The file at the blob path of
  \<open>digest\<close> holds \<open>ociMan\<close>, and the file at the descriptor path of the tag holds the
  encoding of the descriptor whose digest is \<open>digest\<close> and whose size is the length of
  \<open>ociMan\<close>. The blob path is taken to differ from the layout marker's path and from
  the descriptor's, which are written after it.
\<close>

theorem PutManifest_digest_over_stored_bytes:
  assumes "fst (PutManifest D E d fs m) = None"
    and "createManifest D m = Inr (ociMan, mt)"
    and "manifest_Digest D ociMan = Inr digest"
    and "blobPath D (ref d) digest = Inr bp"
    and "bp \<noteq> ociLayoutPath D (ref d)"
    and "bp \<noteq> descriptorPath D (ref d) (tag (ref d))"
  shows "files (snd (PutManifest D E d fs m)) bp = Some ociMan
       \<and> (\<exists>data. json_Marshal_descriptor D
                    \<lparr>Digest = digest, MediaType = mt, Size = int (length ociMan)\<rparr> = Inr data
              \<and> files (snd (PutManifest D E d fs m)) (descriptorPath D (ref d) (tag (ref d)))
                  = Some data)"
  using PutManifest_success [OF assms(1)] assms(2-6) by auto

theorem PutManifest_digest_over_stored_bytes_witness:
  "createManifest example_deps ''s2 manifest''
     = Inr (''{oci}'', ''application/vnd.oci.image.manifest.v1+json'')
   \<and> files (snd (PutManifest example_deps (example_outcomes None) example_dest example_fs
                   ''s2 manifest'')) ''/img/blobs/sha256-{oci}'' = Some ''{oci}''
   \<and> files (snd (PutManifest example_deps (example_outcomes None) example_dest example_fs
                   ''s2 manifest'')) ''/img/refs/latest''
       = Some ''sha256:{oci},application/vnd.oci.image.manifest.v1+json,#####''"
proof -
  have ok: "fst (PutManifest example_deps (example_outcomes None) example_dest example_fs
                   ''s2 manifest'') = None"
    by (simp add: PutManifest_def createManifest_def ioutil_WriteFile_def
          ensureParentDirectoryExists_def example_deps_def example_outcomes_def
          example_dest_def example_fs_def ociManifest_zero_def)
  have cm: "createManifest example_deps ''s2 manifest''
              = Inr (''{oci}'', ''application/vnd.oci.image.manifest.v1+json'')"
    by (simp add: createManifest_def example_deps_def ociManifest_zero_def)
  have dg: "manifest_Digest example_deps ''{oci}'' = Inr ''sha256:{oci}''"
    by (simp add: example_deps_def)
  have bp: "blobPath example_deps (ref example_dest) ''sha256:{oci}''
              = Inr ''/img/blobs/sha256-{oci}''"
    by (simp add: example_deps_def example_dest_def)
  have n1: "''/img/blobs/sha256-{oci}'' \<noteq> ociLayoutPath example_deps (ref example_dest)"
    by (simp add: example_deps_def example_dest_def)
  have n2: "''/img/blobs/sha256-{oci}''
              \<noteq> descriptorPath example_deps (ref example_dest) (tag (ref example_dest))"
    by (simp add: example_deps_def example_dest_def)
  have dp: "descriptorPath example_deps (ref example_dest) (tag (ref example_dest))
              = ''/img/refs/latest''"
    by (simp add: example_deps_def example_dest_def)
  have js: "json_Marshal_descriptor example_deps
              \<lparr>Digest = ''sha256:{oci}'',
               MediaType = ''application/vnd.oci.image.manifest.v1+json'',
               Size = int (length ''{oci}'')\<rparr>
            = Inr ''sha256:{oci},application/vnd.oci.image.manifest.v1+json,#####''"
    by (simp add: example_deps_def eval_nat_numeral)
  show ?thesis
    using PutManifest_digest_over_stored_bytes [OF ok cm dg bp n1 n2] cm
    unfolding dp js by auto
qed

text \<open>
  The earlier revision of \<open>PutManifest\<close> does the same: the blob path is that of the
  digest of the stored bytes, and the descriptor holds that digest and their length.
\<close>

lemma PutManifest_oci_dest_digest_over_stored_bytes:
  assumes "fst (PutManifest_oci_dest D E d fs m) = None"
    and "createManifest D m = Inr (ociMan, mt)"
    and "manifest_Digest D ociMan = Inr digest"
    and "blobPath_oci_dest D (dir (ref d)) digest \<noteq> ociLayoutPath_oci_dest D (dir (ref d))"
    and "blobPath_oci_dest D (dir (ref d)) digest
           \<noteq> descriptorPath_oci_dest D (dir (ref d)) (tag (ref d))"
  shows "files (snd (PutManifest_oci_dest D E d fs m)) (blobPath_oci_dest D (dir (ref d)) digest)
           = Some ociMan
       \<and> (\<exists>data. json_Marshal_descriptor D
                    \<lparr>Digest = digest, MediaType = mt, Size = int (length ociMan)\<rparr> = Inr data
              \<and> files (snd (PutManifest_oci_dest D E d fs m))
                    (descriptorPath_oci_dest D (dir (ref d)) (tag (ref d)))
                  = Some data)"
  using PutManifest_oci_dest_success [OF assms(1)] assms(2-5) by auto

text \<open>
  C10: for an input whose detected MIME type is the OCI v1 image manifest type (the
  constants of the \<open>switch\<close> being distinct, the earlier cases do not take it),
  \<open>createManifest\<close> returns the input unchanged together with the empty media type,
  the \<open>MediaType\<close> of the \<open>ociManifest\<close> value that this path never fills in. So the
  descriptor that a successful \<open>PutManifest\<close> writes for such an input has the empty
  string as its media type, with the digest and the length of the input itself.
\<close>

theorem createManifest_OCI_media_type_empty:
  assumes "GuessMIMEType D m = OCIV1ImageManifestMIMEType D"
    and "OCIV1ImageManifestMIMEType D \<notin>
           {DockerV2Schema1MIMEType D, DockerV2Schema2MIMEType D, DockerV2ListMIMEType D,
            OCIV1ImageManifestListMIMEType D}"
  shows "createManifest D m = Inr (m, [])
       \<and> (fst (PutManifest D E d fs m) = None \<longrightarrow>
            (\<exists>digest data.
                manifest_Digest D m = Inr digest
              \<and> json_Marshal_descriptor D
                  \<lparr>Digest = digest, MediaType = [], Size = int (length m)\<rparr> = Inr data
              \<and> files (snd (PutManifest D E d fs m)) (descriptorPath D (ref d) (tag (ref d)))
                  = Some data))"
proof -
  have cm: "createManifest D m = Inr (m, [])"
    using assms by (simp add: createManifest_def ociManifest_zero_def)
  show ?thesis
  proof (intro conjI impI)
    show "createManifest D m = Inr (m, [])" by (rule cm)
  next
    assume "fst (PutManifest D E d fs m) = None"
    from PutManifest_success [OF this] cm
    show "\<exists>digest data.
            manifest_Digest D m = Inr digest
          \<and> json_Marshal_descriptor D
              \<lparr>Digest = digest, MediaType = [], Size = int (length m)\<rparr> = Inr data
          \<and> files (snd (PutManifest D E d fs m)) (descriptorPath D (ref d) (tag (ref d)))
              = Some data"
      by auto
  qed
qed

theorem createManifest_OCI_media_type_empty_witness:
  "createManifest example_deps ''oci manifest'' = Inr (''oci manifest'', [])
   \<and> fst (PutManifest example_deps (example_outcomes None) example_dest example_fs
           ''oci manifest'') = None
   \<and> files (snd (PutManifest example_deps (example_outcomes None) example_dest example_fs
                   ''oci manifest'')) ''/img/refs/latest''
       = Some ''sha256:oci manifest,,############''"
proof -
  have g: "GuessMIMEType example_deps ''oci manifest''
             = OCIV1ImageManifestMIMEType example_deps"
    by (simp add: example_deps_def)
  have dist: "OCIV1ImageManifestMIMEType example_deps \<notin>
           {DockerV2Schema1MIMEType example_deps, DockerV2Schema2MIMEType example_deps,
            DockerV2ListMIMEType example_deps, OCIV1ImageManifestListMIMEType example_deps}"
    by (simp add: example_deps_def)
  have ok: "fst (PutManifest example_deps (example_outcomes None) example_dest example_fs
                   ''oci manifest'') = None"
    by (simp add: PutManifest_def createManifest_def ioutil_WriteFile_def
          ensureParentDirectoryExists_def example_deps_def example_outcomes_def
          example_dest_def example_fs_def ociManifest_zero_def)
  have dp: "descriptorPath example_deps (ref example_dest) (tag (ref example_dest))
              = ''/img/refs/latest''"
    by (simp add: example_deps_def example_dest_def)
  have dg: "manifest_Digest example_deps ''oci manifest'' = Inr ''sha256:oci manifest''"
    by (simp add: example_deps_def)
  have js: "json_Marshal_descriptor example_deps
              \<lparr>Digest = ''sha256:oci manifest'', MediaType = [], Size = 12\<rparr>
            = Inr ''sha256:oci manifest,,############''"
    by (simp add: example_deps_def eval_nat_numeral)
  show ?thesis
    using createManifest_OCI_media_type_empty
            [OF g dist, of "example_outcomes None" example_dest example_fs] ok
    unfolding dp by (auto simp: dg js)
qed

section \<open>Properties of storage references\<close>

lemma resolveImage_range_find:
  "resolveImage_range P cr images s =
     (case find (\<lambda>img. imageMatchesRepo P img cr) images of
        None \<Rightarrow> s | Some img \<Rightarrow> s\<lparr>id' := ID img\<rparr>)"
  by (induction images) auto

lemma find_ID_nonempty:
  "\<forall>img\<in>set images. ID img \<noteq> [] \<Longrightarrow> find Q images = Some img \<Longrightarrow> ID img \<noteq> []"
  by (induction images) (auto split: if_splits)

text \<open>
  C5: \<open>resolveImage\<close> locates the image in the order of the specification: on a store
  whose images all have an id (a non-empty string), its result is that of
  \<open>Resolve_spec\<close>, and it leaves the reference with the id that \<open>Resolve_id_spec\<close>
  finds: (1) the id the reference carries; (2) else the id of the image that the store
  has under the expanded reference name; (3) else, when the reference has a digest, the
  id of the first image of that digest whose names contain the reference's repository,
  an image of another repository never being taken; (4) else none, and the call fails
  with \<open>ErrNoSuchImage\<close>. With an id, the call fails with \<open>ErrNoSuchImage\<close> as well
  when the reference has a name and the names of the image of that id do not contain
  its repository.
\<close>

theorem resolveImage_refines_Resolve_spec:
  assumes "\<forall>k img. Image (store (transport s)) k = Inr img \<longrightarrow> ID img \<noteq> []"
    and "\<forall>dg images. ImagesByDigest (store (transport s)) dg = Inr images
            \<longrightarrow> (\<forall>img\<in>set images. ID img \<noteq> [])"
  shows "snd (resolveImage P s) = Resolve_spec P s
       \<and> fst (resolveImage P s) =
           s\<lparr>id' := (case Resolve_id_spec P s of Some i \<Rightarrow> i | None \<Rightarrow> [])\<rparr>"
proof (cases "id' s = []")
  case False
  then show ?thesis
    by (cases s) (auto simp: resolveImage_def Resolve_spec_def Resolve_id_spec_def Let_def
          split: sum.splits option.splits)
next
  case True
  show ?thesis
  proof (cases "Image (store (transport s)) (reference s)")
    case (Inr img)
    with assms(1) have "ID img \<noteq> []" by blast
    with True Inr show ?thesis
      by (cases s) (auto simp: resolveImage_def Resolve_spec_def Resolve_id_spec_def Let_def
          split: sum.splits option.splits)
  next
    case (Inl err)
    show ?thesis
    proof (cases "completeReference s")
      case None
      with True Inl show ?thesis
        by (cases s) (auto simp: resolveImage_def Resolve_spec_def Resolve_id_spec_def Let_def
          split: sum.splits option.splits)
    next
      case (Some cr)
      show ?thesis
      proof (cases "Digest' cr")
        case None
        with True Inl Some show ?thesis
          by (cases s) (auto simp: resolveImage_def Resolve_spec_def Resolve_id_spec_def Let_def
            split: sum.splits option.splits)
      next
        case dg: (Some digest)
        show ?thesis
        proof (cases "ImagesByDigest (store (transport s)) digest")
          case err2: (Inl e2)
          with True Inl Some dg show ?thesis
            by (cases s) (auto simp: resolveImage_def Resolve_spec_def Resolve_id_spec_def Let_def
              split: sum.splits option.splits)
        next
          case imgs: (Inr images)
          with assms(2) have ne: "\<forall>img\<in>set images. ID img \<noteq> []" by blast
          show ?thesis
          proof (cases "find (\<lambda>img. imageMatchesRepo P img cr) images")
            case None
            with True Inl Some dg imgs show ?thesis
              by (cases s) (auto simp: resolveImage_def Resolve_spec_def Resolve_id_spec_def
                    Let_def resolveImage_range_find StringWithinTransport_def
                  split: sum.splits option.splits)
          next
            case found: (Some img)
            with ne have "ID img \<noteq> []" by (rule find_ID_nonempty)
            with found True Inl Some dg imgs show ?thesis
              by (cases s) (auto simp: resolveImage_def Resolve_spec_def Resolve_id_spec_def
                    Let_def resolveImage_range_find
                  split: sum.splits option.splits)
          qed
        qed
      qed
    qed
  qed
qed

theorem resolveImage_refines_Resolve_spec_witness:
  "snd (resolveImage example_parser
          (example_reference ''a/b/c@sha256:dd'' [] (Some ''sha256:dd''))) = Inr example_image2
   \<and> id' (fst (resolveImage example_parser
                 (example_reference ''a/b/c@sha256:dd'' [] (Some ''sha256:dd'')))) = ''2222''"
proof -
  let ?s = "example_reference ''a/b/c@sha256:dd'' [] (Some ''sha256:dd'')"
  have w1: "\<forall>k img. Image (store (transport ?s)) k = Inr img \<longrightarrow> ID img \<noteq> []"
    by (auto simp: example_reference_def example_store_def example_image1_def
          example_image2_def split: if_splits)
  have w2: "\<forall>dg images. ImagesByDigest (store (transport ?s)) dg = Inr images
              \<longrightarrow> (\<forall>img\<in>set images. ID img \<noteq> [])"
    by (auto simp: example_reference_def example_store_def example_image1_def
          example_image2_def split: if_splits)
  have i: "Resolve_id_spec example_parser ?s = Some ''2222''"
    by (simp add: Resolve_id_spec_def example_reference_def example_store_def
          example_image1_def example_image2_def imageMatchesRepo_def example_parser_def)
  have r: "Resolve_spec example_parser ?s = Inr example_image2"
    by (simp add: Resolve_spec_def i)
       (simp add: example_reference_def example_store_def
          example_image2_def imageMatchesRepo_def example_parser_def)
  show ?thesis
    using resolveImage_refines_Resolve_spec [OF w1 w2, of example_parser]
    by (simp add: r i)
qed

lemma PolicyConfigurationNamespaces_range_Nil:
  "PolicyConfigurationNamespaces_range sp [] ns = ns"
  by simp

lemma PolicyConfigurationNamespaces_range_snoc:
  "PolicyConfigurationNamespaces_range sp (cs @ [c]) ns =
     PolicyConfigurationNamespaces_range sp cs (ns @ [sp @ Join (cs @ [c]) ''/''])"
  by (subst PolicyConfigurationNamespaces_range.simps) simp

lemma PolicyConfigurationNamespaces_range_prefixes:
  "PolicyConfigurationNamespaces_range sp cs ns =
     ns @ map (\<lambda>k. sp @ Join (take k cs) ''/'') (rev [1..<Suc (length cs)])"
proof (induction cs arbitrary: ns rule: rev_induct)
  case Nil
  show ?case by (simp add: PolicyConfigurationNamespaces_range_Nil)
next
  case (snoc c cs)
  show ?case
    by (simp only: PolicyConfigurationNamespaces_range_snoc snoc.IH)
       (auto simp del: PolicyConfigurationNamespaces_range.simps)
qed

lemma Split_no_sep:
  "sep \<notin> set c \<Longrightarrow> Split c sep = [c]"
  by (induction c) auto

lemma Split_append_sep:
  "sep \<notin> set c \<Longrightarrow> Split (c @ sep # rest) sep = c # Split rest sep"
  by (induction c) auto

lemma Split_Join:
  "cs \<noteq> [] \<Longrightarrow> \<forall>c\<in>set cs. sep \<notin> set c \<Longrightarrow> Split (Join cs [sep]) sep = cs"
  by (induction cs "[sep]" rule: Join.induct) (auto simp: Split_no_sep Split_append_sep)

text \<open>
  For any name of components \<open>cs\<close> (one at least, none containing a slash), the
  namespaces of the name are the store spec with each prefix of \<open>cs\<close>, from all of
  \<open>cs\<close> down to its first component.
\<close>

lemma PolicyConfigurationNamespaces_prefixes:
  assumes "completeReference s = Some cr"
    and "id' s \<noteq> []"
    and "Name cr = Join cs ''/''"
    and "cs \<noteq> []"
    and "\<forall>c\<in>set cs. CHR ''/'' \<notin> set c"
  shows "PolicyConfigurationNamespaces s =
           [''['' @ GraphDriverName (store (transport s)) @ ''@''
              @ GraphRoot (store (transport s)) @ '']'' @ reference s]
           @ map (\<lambda>k. ''['' @ GraphDriverName (store (transport s)) @ ''@''
                        @ GraphRoot (store (transport s)) @ '']'' @ Join (take k cs) ''/'')
               (rev [1..<Suc (length cs)])
           @ [''['' @ GraphDriverName (store (transport s)) @ ''@''
                @ GraphRoot (store (transport s)) @ '']'',
              ''['' @ GraphRoot (store (transport s)) @ '']'']"
proof -
  have "Split (Name cr) (CHR ''/'') = cs"
    using Split_Join [OF assms(4,5)] assms(3) by simp
  then show ?thesis
    using assms(1,2)
    by (simp add: PolicyConfigurationNamespaces_def PolicyConfigurationNamespaces_range_prefixes
          del: PolicyConfigurationNamespaces_range.simps)
qed

text \<open>
  C6: for a storage reference whose complete name has the path \<open>a/b/c\<close> and which
  has an id, \<open>PolicyConfigurationNamespaces\<close> returns exactly, in this order: the store
  spec with the reference without the id; the store spec with \<open>a/b/c\<close>, with \<open>a/b\<close>
  and with \<open>a\<close>, and not with the empty path; the store spec alone; the store spec
  without the driver.
\<close>

theorem PolicyConfigurationNamespaces_a_b_c:
  assumes "completeReference s = Some cr"
    and "Name cr = ''a/b/c''"
    and "id' s \<noteq> []"
  shows "PolicyConfigurationNamespaces s =
           [''['' @ GraphDriverName (store (transport s)) @ ''@''
              @ GraphRoot (store (transport s)) @ '']'' @ reference s,
            ''['' @ GraphDriverName (store (transport s)) @ ''@''
              @ GraphRoot (store (transport s)) @ '']'' @ ''a/b/c'',
            ''['' @ GraphDriverName (store (transport s)) @ ''@''
              @ GraphRoot (store (transport s)) @ '']'' @ ''a/b'',
            ''['' @ GraphDriverName (store (transport s)) @ ''@''
              @ GraphRoot (store (transport s)) @ '']'' @ ''a'',
            ''['' @ GraphDriverName (store (transport s)) @ ''@''
              @ GraphRoot (store (transport s)) @ '']'',
            ''['' @ GraphRoot (store (transport s)) @ '']'']"
proof -
  have sp: "Split ''a/b/c'' (CHR ''/'') = [''a'', ''b'', ''c'']"
    by simp
  have "PolicyConfigurationNamespaces_range sp [''a'', ''b'', ''c''] ns =
          ns @ [sp @ ''a/b/c'', sp @ ''a/b'', sp @ ''a'']" for sp ns
    by (simp add: PolicyConfigurationNamespaces_range_prefixes upt_rec
          del: PolicyConfigurationNamespaces_range.simps)
  with assms sp show ?thesis
    by (simp add: PolicyConfigurationNamespaces_def
          del: PolicyConfigurationNamespaces_range.simps)
qed

theorem PolicyConfigurationNamespaces_a_b_c_witness:
  "PolicyConfigurationNamespaces (example_reference ''a/b/c:tag'' ''2222'' None) =
     [''[overlay@/var/lib/containers/storage]a/b/c:tag'',
      ''[overlay@/var/lib/containers/storage]a/b/c'',
      ''[overlay@/var/lib/containers/storage]a/b'',
      ''[overlay@/var/lib/containers/storage]a'',
      ''[overlay@/var/lib/containers/storage]'',
      ''[/var/lib/containers/storage]'']"
proof -
  have cr: "completeReference (example_reference ''a/b/c:tag'' ''2222'' None)
              = Some \<lparr>Name = ''a/b/c'', Tag = None, Digest' = None\<rparr>"
    by (simp add: example_reference_def)
  have nm: "Name \<lparr>Name = ''a/b/c'', Tag = None, Digest' = None\<rparr> = ''a/b/c''"
    by simp
  have i: "id' (example_reference ''a/b/c:tag'' ''2222'' None) \<noteq> []"
    by (simp add: example_reference_def)
  show ?thesis
    using PolicyConfigurationNamespaces_a_b_c [OF cr nm i]
    by (simp add: example_reference_def example_store_def)
qed

section \<open>Properties of signing and verification\<close>

text \<open>
  C3: let \<open>m\<close> be a manifest that \<open>ComputeDigest\<close> accepts, with digest \<open>digest\<close>,
  \<open>dockerRef\<close> a fully qualified reference and \<open>K\<close> a key identity known to the
  mechanism: the mechanism signs the envelope of \<open>dockerRef\<close> and \<open>digest\<close> under
  \<open>K\<close>, authenticates that signature as the envelope signed by \<open>K\<close>, and the envelope
  parses back. Then signing \<open>m\<close> under \<open>dockerRef\<close> and \<open>K\<close> succeeds, and verifying
  the signature against the same \<open>m\<close>, \<open>dockerRef\<close> and \<open>K\<close> succeeds with a
  verified signature whose \<open>DockerReference\<close> is \<open>dockerRef\<close> and whose
  \<open>DockerManifestDigest\<close> is \<open>ComputeDigest(m)\<close>.
\<close>

theorem Sign_then_Verify_succeeds:
  assumes "ComputeDigest S m = Some digest"
    and "dockerRef \<noteq> []"
    and "fullyQualified S dockerRef"
    and "mech_Sign mech
           (serialize S \<lparr>dockerReference = dockerRef, dockerManifestDigest = digest\<rparr>) K
         = Some signature"
    and "mech_Verify mech signature
         = Some (serialize S \<lparr>dockerReference = dockerRef, dockerManifestDigest = digest\<rparr>, K)"
    and "parse S (serialize S \<lparr>dockerReference = dockerRef, dockerManifestDigest = digest\<rparr>)
         = Some \<lparr>dockerReference = dockerRef, dockerManifestDigest = digest\<rparr>"
  shows "SignDockerManifest S m dockerRef mech K = Inr signature
       \<and> VerifyDockerManifestSignature S signature m dockerRef mech K
           = (Some \<lparr>DockerReference = dockerRef, DockerManifestDigest = digest\<rparr>, None)"
  using assms by (simp add: SignDockerManifest_def VerifyDockerManifestSignature_def)

theorem Sign_then_Verify_succeeds_witness:
  "SignDockerManifest example_signature_deps ''manifest'' ''repo:tag'' example_mechanism ''KEY1''
     = Inr ''KEY1|repo:tag#sha256:manifest''
   \<and> VerifyDockerManifestSignature example_signature_deps ''KEY1|repo:tag#sha256:manifest''
        ''manifest'' ''repo:tag'' example_mechanism ''KEY1''
     = (Some \<lparr>DockerReference = ''repo:tag'', DockerManifestDigest = ''sha256:manifest''\<rparr>,
        None)"
proof -
  have d: "ComputeDigest example_signature_deps ''manifest'' = Some ''sha256:manifest''"
    by (simp add: example_signature_deps_def)
  have n: "''repo:tag'' \<noteq> []" by simp
  have q: "fullyQualified example_signature_deps ''repo:tag''"
    by (simp add: example_signature_deps_def)
  have ser: "serialize example_signature_deps
               \<lparr>dockerReference = ''repo:tag'', dockerManifestDigest = ''sha256:manifest''\<rparr>
             = ''repo:tag#sha256:manifest''"
    by (simp add: example_signature_deps_def)
  have sg: "mech_Sign example_mechanism
              (serialize example_signature_deps
                 \<lparr>dockerReference = ''repo:tag'', dockerManifestDigest = ''sha256:manifest''\<rparr>)
              ''KEY1'' = Some ''KEY1|repo:tag#sha256:manifest''"
    unfolding ser by (simp add: example_mechanism_def)
  have vf: "mech_Verify example_mechanism ''KEY1|repo:tag#sha256:manifest''
            = Some (serialize example_signature_deps
                      \<lparr>dockerReference = ''repo:tag'',
                       dockerManifestDigest = ''sha256:manifest''\<rparr>, ''KEY1'')"
    unfolding ser by (simp add: example_mechanism_def)
  have ps: "parse example_signature_deps
              (serialize example_signature_deps
                 \<lparr>dockerReference = ''repo:tag'', dockerManifestDigest = ''sha256:manifest''\<rparr>)
            = Some \<lparr>dockerReference = ''repo:tag'', dockerManifestDigest = ''sha256:manifest''\<rparr>"
    unfolding ser by (simp add: example_signature_deps_def)
  show ?thesis
    by (rule Sign_then_Verify_succeeds [OF d n q sg vf ps])
qed

text \<open>
  C4: whenever \<open>Verify\<close> returns an error, the verified signature it returns is
  \<open>nil\<close>. A verified signature that is not \<open>nil\<close> comes without an error and only
  when every check has passed: the manifest has a digest, the mechanism authenticates
  the signature as signed by the expected key, and the envelope parses to the expected
  reference and that digest.
\<close>

theorem Verify_error_returns_nil:
  "(snd (VerifyDockerManifestSignature S signature m expectedReference mech expectedKey) \<noteq> None
      \<longrightarrow> fst (VerifyDockerManifestSignature S signature m expectedReference mech expectedKey)
            = None)
   \<and> (fst (VerifyDockerManifestSignature S signature m expectedReference mech expectedKey)
         \<noteq> None
      \<longrightarrow> snd (VerifyDockerManifestSignature S signature m expectedReference mech expectedKey)
            = None
          \<and> (\<exists>digest payload.
                ComputeDigest S m = Some digest
              \<and> mech_Verify mech signature = Some (payload, expectedKey)
              \<and> parse S payload
                  = Some \<lparr>dockerReference = expectedReference, dockerManifestDigest = digest\<rparr>
              \<and> fst (VerifyDockerManifestSignature S signature m expectedReference mech
                       expectedKey)
                  = Some \<lparr>DockerReference = expectedReference,
                          DockerManifestDigest = digest\<rparr>))"
  by (auto simp: VerifyDockerManifestSignature_def split: option.splits if_splits)

theorem Verify_error_returns_nil_witness:
  "snd (VerifyDockerManifestSignature example_signature_deps ''KEY1|repo:tag#sha256:manifest''
          ''manifest'' ''repo:tag'' example_mechanism ''KEY2'') = Some KeyMismatch
   \<and> fst (VerifyDockerManifestSignature example_signature_deps ''KEY1|repo:tag#sha256:manifest''
          ''manifest'' ''repo:tag'' example_mechanism ''KEY2'') = None
   \<and> fst (VerifyDockerManifestSignature example_signature_deps ''KEY1|repo:tag#sha256:manifest''
          ''manifest'' ''repo:tag'' example_mechanism ''KEY1'')
       = Some \<lparr>DockerReference = ''repo:tag'', DockerManifestDigest = ''sha256:manifest''\<rparr>
   \<and> snd (VerifyDockerManifestSignature example_signature_deps ''KEY1|repo:tag#sha256:manifest''
          ''manifest'' ''repo:tag'' example_mechanism ''KEY1'') = None"
proof -
  have e: "snd (VerifyDockerManifestSignature example_signature_deps
                  ''KEY1|repo:tag#sha256:manifest'' ''manifest'' ''repo:tag''
                  example_mechanism ''KEY2'') = Some KeyMismatch"
    by (simp add: VerifyDockerManifestSignature_def example_signature_deps_def
          example_mechanism_def)
  have v: "fst (VerifyDockerManifestSignature example_signature_deps
                  ''KEY1|repo:tag#sha256:manifest'' ''manifest'' ''repo:tag''
                  example_mechanism ''KEY1'')
           = Some \<lparr>DockerReference = ''repo:tag'', DockerManifestDigest = ''sha256:manifest''\<rparr>"
    by (simp add: VerifyDockerManifestSignature_def example_signature_deps_def
          example_mechanism_def)
  show ?thesis
    using Verify_error_returns_nil
            [of example_signature_deps "''KEY1|repo:tag#sha256:manifest''" "''manifest''"
                "''repo:tag''" example_mechanism "''KEY2''"]
          Verify_error_returns_nil
            [of example_signature_deps "''KEY1|repo:tag#sha256:manifest''" "''manifest''"
                "''repo:tag''" example_mechanism "''KEY1''"]
          e v
    by simp
qed

end
